theory Spec2Isabelle
  imports Main
begin

section \<open>Python values\<close>

text \<open>
  A Python \<open>str\<close> is a sequence of Unicode code points: \<open>len\<close> and slicing count code
  points, and the sources contain code points above 255 (the arrow U+2192 in a result
  header, the pictographs in the console messages). A string is therefore a list of
  code-point numbers; \<open>lit\<close> embeds an ASCII literal of the source.
\<close>

type_synonym str = "nat list"

definition lit :: "string \<Rightarrow> str" where
  "lit s = map of_char s"

text \<open>\<open>xs[:n]\<close> is \<open>take n xs\<close>. \<open>xs[-n:]\<close> for a positive literal \<open>n\<close> keeps the
  last \<open>n\<close> elements, and the whole sequence when it has fewer.\<close>

definition last_n :: "nat \<Rightarrow> 'a list \<Rightarrow> 'a list" where
  "last_n n xs = drop (length xs - n) xs"

text \<open>\<open>sep.join(xs)\<close>.\<close>

fun join :: "str \<Rightarrow> str list \<Rightarrow> str" where
  "join sep [] = []"
| "join sep [x] = x"
| "join sep (x # y # ys) = x @ sep @ join sep (y # ys)"

text \<open>
  \<open>s.strip()\<close> removes leading and trailing white space; the code points below are the ones
  the interpreter's \<open>str.isspace\<close> accepts.
\<close>

definition is_space :: "nat \<Rightarrow> bool" where
  "is_space c =
     ((9 \<le> c \<and> c \<le> 13) \<or> (28 \<le> c \<and> c \<le> 32) \<or> c = 133 \<or> c = 160 \<or> c = 5760 \<or>
      (8192 \<le> c \<and> c \<le> 8202) \<or> c = 8232 \<or> c = 8233 \<or> c = 8239 \<or> c = 8287 \<or>
      c = 12288)"

definition strip :: "str \<Rightarrow> str" where
  "strip s = rev (dropWhile is_space (rev (dropWhile is_space s)))"

text \<open>
  \<open>s.upper()\<close> replaces every code point by its full upper-case mapping, which may be
  several code points long. The mapping is the interpreter's Unicode table, not code of
  this repository: it is a parameter (a field of \<open>world\<close> below).
\<close>

definition upper :: "(nat \<Rightarrow> nat list) \<Rightarrow> str \<Rightarrow> str" where
  "upper tbl s = concat (map tbl s)"

text \<open>
  Exceptions. Every handler of the sources is \<open>except Exception as e\<close> and reads at most
  \<open>str(e)\<close>, so a failure of an external collaborator is represented by that text. The
  only exception the modelled code can raise by itself is the read of a local variable
  that no branch has bound. Interrupts such as \<open>KeyboardInterrupt\<close> are not instances of
  \<open>Exception\<close>; \<open>run\<close> handles them itself and they are outside this model.
\<close>

datatype exn = Failure str | UnboundLocalError str

fun str_exn :: "exn \<Rightarrow> str" where
  "str_exn (Failure m) = m"
| "str_exn (UnboundLocalError v) =
     lit ''cannot access local variable '' @ [39] @ v @ [39] @
     lit '' where it is not associated with a value''"

text \<open>The data handed to \<open>json.dump\<close>.\<close>

datatype json = JString str | JArray "json list" | JObject "(str \<times> json) list"

section \<open>External collaborators and effects\<close>

text \<open>
  The four chains of \<open>DualModelRAGAssistant\<close>, each \<open>prompt | model | StrOutputParser()\<close>:
  \<open>coordinator_prompt | gpt_model\<close>, \<open>qwen_prompt | qwen_model\<close>, \<open>gpt_prompt | gpt_model\<close>
  and \<open>combination_prompt | gpt_model\<close>.
\<close>

datatype chain = Coordinator_chain | Qwen_chain | Gpt_chain | Combination_chain

text \<open>
  Everything the code calls outside the repository: the search tool, the invocation of a
  chain on its dictionary of variables (keys in source order), writing a JSON document to
  a named file (\<open>open\<close> followed by \<open>json.dump\<close>), writing a line to the console
  (\<open>print\<close>, which raises when standard output cannot encode the line or is broken),
  and the upper-case table. Each call either returns or raises.
\<close>

record world =
  search_run :: "str \<Rightarrow> exn + str"
  chain_invoke :: "chain \<Rightarrow> (str \<times> str) list \<Rightarrow> exn + str"
  write_json :: "str \<Rightarrow> json \<Rightarrow> exn + unit"
  console_write :: "str \<Rightarrow> exn + unit"
  upper_table :: "nat \<Rightarrow> nat list"

text \<open>
  What a run does to the outside, in order: the calls it makes, with their arguments.
  \<open>Printed s\<close> is the call \<open>print(s)\<close>, whether the write then succeeds or raises.
\<close>

datatype event =
    Printed str
  | Searched str
  | Invoked chain "(str \<times> str) list"
  | Wrote str json

text \<open>The chain invocations among the events, each with the variables it received.\<close>

fun invocations :: "event list \<Rightarrow> (chain \<times> (str \<times> str) list) list" where
  "invocations [] = []"
| "invocations (Invoked c vars # es) = (c, vars) # invocations es"
| "invocations (e # es) = invocations es"

text \<open>
  A computation returns a value or raises, and emits events. \<open>io_try m h\<close> is
  \<open>try: m except Exception as e: h e\<close>. Within one call of a modelled method no
  collaborator is called twice with the same arguments (the search tool, each chain and
  the file writer are called at most once, and the console lines of one call differ), so
  a \<open>world\<close> whose answers depend on the arguments only describes every possible run of
  that call.
\<close>

type_synonym 'a io = "(exn + 'a) \<times> event list"

definition io_return :: "'a \<Rightarrow> 'a io" where
  "io_return x = (Inr x, [])"

definition io_raise :: "exn \<Rightarrow> 'a io" where
  "io_raise e = (Inl e, [])"

definition io_bind :: "'a io \<Rightarrow> ('a \<Rightarrow> 'b io) \<Rightarrow> 'b io" where
  "io_bind m f =
     (case fst m of
        Inl e \<Rightarrow> (Inl e, snd m)
      | Inr x \<Rightarrow> (fst (f x), snd m @ snd (f x)))"

definition io_try :: "'a io \<Rightarrow> (exn \<Rightarrow> 'a io) \<Rightarrow> 'a io" where
  "io_try m h =
     (case fst m of
        Inl e \<Rightarrow> (fst (h e), snd m @ snd (h e))
      | Inr x \<Rightarrow> (Inr x, snd m))"

definition print_line :: "world \<Rightarrow> str \<Rightarrow> unit io" where
  "print_line w s = (console_write w s, [Printed s])"

definition search :: "world \<Rightarrow> str \<Rightarrow> str io" where
  "search w query = (search_run w query, [Searched query])"

definition invoke :: "world \<Rightarrow> chain \<Rightarrow> (str \<times> str) list \<Rightarrow> str io" where
  "invoke w c vars = (chain_invoke w c vars, [Invoked c vars])"

definition dump_json :: "world \<Rightarrow> str \<Rightarrow> json \<Rightarrow> unit io" where
  "dump_json w filename data = (write_json w filename data, [Wrote filename data])"


section \<open>dual\_model\_assistant.py: DualModelRAGAssistant\<close>

text \<open>
  Both assistant classes have a method of the same name for searching, recording and
  saving; the prefixes \<open>dual_\<close> and \<open>adv_\<close> tell them apart where they differ.
\<close>

definition dual_search_with_error_handling :: "world \<Rightarrow> str \<Rightarrow> str io" where
  "dual_search_with_error_handling w question =
     io_try (io_bind (search w question) (\<lambda>results. io_return results))
       (\<lambda>e. io_return
          (lit ''Search unavailable: '' @ str_exn e @ lit ''. Using model knowledge only.''))"

definition determine_model_strategy :: "world \<Rightarrow> str \<Rightarrow> str \<Rightarrow> str io" where
  "determine_model_strategy w question context =
     io_try
       (io_bind
          (invoke w Coordinator_chain [(lit ''question'', question), (lit ''context'', context)])
          (\<lambda>raw.
             let strategy = upper (upper_table w) (strip raw);
                 strategy =
                   (if strategy \<notin> set [lit ''QWEN'', lit ''GPT'', lit ''BOTH'', lit ''QWEN_THEN_GPT'']
                    then lit ''GPT'' else strategy)
             in io_return strategy))
       (\<lambda>e.
          io_bind
            (print_line w ([0x26A0, 0xFE0F] @ lit '' Strategy determination failed: '' @ str_exn e))
            (\<lambda>_. io_return (lit ''GPT'')))"

definition get_qwen_response :: "world \<Rightarrow> str \<Rightarrow> str \<Rightarrow> str io" where
  "get_qwen_response w question context =
     io_try (invoke w Qwen_chain [(lit ''question'', question), (lit ''context'', context)])
       (\<lambda>e. io_return (lit ''Qwen model error: '' @ str_exn e))"

definition get_gpt_response :: "world \<Rightarrow> str \<Rightarrow> str \<Rightarrow> str io" where
  "get_gpt_response w question context =
     io_try (invoke w Gpt_chain [(lit ''question'', question), (lit ''context'', context)])
       (\<lambda>e. io_return (lit ''GPT model error: '' @ str_exn e))"

definition combine_responses :: "world \<Rightarrow> str \<Rightarrow> str \<Rightarrow> str \<Rightarrow> str \<Rightarrow> str io" where
  "combine_responses w question context qwen_response gpt_response =
     io_try
       (invoke w Combination_chain
          [(lit ''question'', question), (lit ''context'', context),
           (lit ''qwen_response'', qwen_response), (lit ''gpt_response'', gpt_response)])
       (\<lambda>e. io_return
          (lit ''**Combined Response:**\<newline>\<newline>**Qwen3-VL:** '' @ qwen_response @
           lit ''\<newline>\<newline>**GPT-OSS:** '' @ gpt_response))"

text \<open>
  \<open>process_question\<close>, lines 143 to 168: the \<open>if\<close>/\<open>elif\<close> chain binds the locals
  \<open>response\<close> and \<open>model_info\<close>. It has no \<open>else\<close>: when no branch is taken both stay
  unbound (\<open>None\<close> here).
\<close>

definition strategy_branches :: "world \<Rightarrow> str \<Rightarrow> str \<Rightarrow> str \<Rightarrow> (str option \<times> str option) io" where
  "strategy_branches w question context strategy =
     (if strategy = lit ''QWEN'' then
        io_bind (print_line w ([0x1F7E1] @ lit '' Using Qwen3-VL model...'')) (\<lambda>_.
        io_bind (get_qwen_response w question context) (\<lambda>response.
        io_return (Some response, Some (lit ''**Model Used:** Qwen3-VL''))))
      else if strategy = lit ''GPT'' then
        io_bind (print_line w ([0x1F535] @ lit '' Using GPT-OSS model...'')) (\<lambda>_.
        io_bind (get_gpt_response w question context) (\<lambda>response.
        io_return (Some response, Some (lit ''**Model Used:** GPT-OSS''))))
      else if strategy = lit ''BOTH'' then
        io_bind (print_line w ([0x1F7E1] @ lit '' Getting Qwen3-VL response...'')) (\<lambda>_.
        io_bind (get_qwen_response w question context) (\<lambda>qwen_response.
        io_bind (print_line w ([0x1F535] @ lit '' Getting GPT-OSS response...'')) (\<lambda>_.
        io_bind (get_gpt_response w question context) (\<lambda>gpt_response.
        io_bind (print_line w ([0x1F504] @ lit '' Combining responses...'')) (\<lambda>_.
        io_bind (combine_responses w question context qwen_response gpt_response) (\<lambda>response.
        io_return
          (Some response, Some (lit ''**Models Used:** Qwen3-VL + GPT-OSS (Combined)''))))))))
      else if strategy = lit ''QWEN_THEN_GPT'' then
        io_bind (print_line w ([0x1F7E1] @ lit '' Getting Qwen3-VL response...'')) (\<lambda>_.
        io_bind (get_qwen_response w question context) (\<lambda>qwen_response.
        io_bind (print_line w ([0x1F535] @ lit '' Refining with GPT-OSS...'')) (\<lambda>_.
        let refined_context =
              lit ''Previous analysis: '' @ qwen_response @
              lit ''\<newline>\<newline>Original context: '' @ context
        in
        io_bind (get_gpt_response w question refined_context) (\<lambda>response.
        io_return
          (Some response,
           Some (lit ''**Models Used:** Qwen3-VL '' @ [0x2192] @ lit '' GPT-OSS (Sequential)''))))))
      else io_return (None, None))"

text \<open>Line 170, \<open>return f"{model_info}\n\n{response}"\<close>: \<open>model_info\<close> is read first.\<close>

fun return_answer :: "str option \<times> str option \<Rightarrow> str io" where
  "return_answer (response, None) = io_raise (UnboundLocalError (lit ''model_info''))"
| "return_answer (None, Some model_info) = io_raise (UnboundLocalError (lit ''response''))"
| "return_answer (Some response, Some model_info) =
     io_return (model_info @ lit ''\<newline>\<newline>'' @ response)"

definition process_question :: "world \<Rightarrow> str \<Rightarrow> str io" where
  "process_question w question =
     io_bind (print_line w ([0x1F50D] @ lit '' Searching web...'')) (\<lambda>_.
     io_bind (dual_search_with_error_handling w question) (\<lambda>context.
     io_bind (print_line w ([0x1F916] @ lit '' Determining optimal model strategy...'')) (\<lambda>_.
     io_bind (determine_model_strategy w question context) (\<lambda>strategy.
     io_bind (print_line w ([0x1F4CB] @ lit '' Strategy: '' @ strategy)) (\<lambda>_.
     io_bind (strategy_branches w question context strategy) return_answer)))))"

text \<open>
  The object state. \<open>conversation_history\<close> is the only attribute either class assigns
  after \<open>__init__\<close>; the models, the prompts and the search tool are fixed.
\<close>

record session =
  conversation_history :: "str list"

definition init_session :: session where
  "init_session = \<lparr>conversation_history = []\<rparr>"

text \<open>The \<open>clear\<close> command of \<open>run\<close> (both classes).\<close>

definition clear_history :: "session \<Rightarrow> session" where
  "clear_history s = s\<lparr>conversation_history := []\<rparr>"

text \<open>
  \<open>timestamp\<close> is what \<open>datetime.now().strftime("%H:%M")\<close> returned, \<open>now\<close> below what
  \<open>datetime.now().isoformat()\<close> returned.
\<close>

definition dual_add_to_history :: "str \<Rightarrow> str \<Rightarrow> str \<Rightarrow> session \<Rightarrow> session" where
  "dual_add_to_history timestamp question answer s =
     (let s = s\<lparr>conversation_history := conversation_history s @
                 [lit ''['' @ timestamp @ lit ''] '' @ question,
                  lit ''['' @ timestamp @ lit ''] '' @ take 300 answer @ lit ''...'']\<rparr>
      in if length (conversation_history s) > 20
         then s\<lparr>conversation_history := last_n 20 (conversation_history s)\<rparr>
         else s)"

text \<open>A method can assign to \<open>self\<close>, so saving returns the session as well.\<close>

definition dual_save_conversation :: "world \<Rightarrow> str \<Rightarrow> str \<Rightarrow> session \<Rightarrow> unit io \<times> session" where
  "dual_save_conversation w now filename s =
     (let conversation_data =
            JObject
              [(lit ''timestamp'', JString now),
               (lit ''models_used'',
                JArray [JString (lit ''qwen3-vl:235b-cloud''), JString (lit ''gpt-oss:120b-cloud'')]),
               (lit ''history'', JArray (map JString (conversation_history s)))]
      in (io_try
            (io_bind (dump_json w filename conversation_data) (\<lambda>_.
             print_line w ([0x1F4BE] @ lit '' Conversation saved to '' @ filename)))
            (\<lambda>e. print_line w ([0x274C] @ lit '' Could not save conversation: '' @ str_exn e)),
          s))"

section \<open>advanced\_example.py: AdvancedRAGAssistant\<close>

definition adv_search_with_error_handling :: "world \<Rightarrow> str \<Rightarrow> str io" where
  "adv_search_with_error_handling w question =
     io_try (io_bind (search w question) (\<lambda>results. io_return results))
       (\<lambda>e. io_return
          (lit ''Search unavailable: '' @ str_exn e @ lit ''. Using general knowledge only.''))"

text \<open>The loop \<open>for i in range(0, len(recent_history), 2)\<close> of \<open>format_history\<close>.\<close>

function format_loop :: "str list \<Rightarrow> nat \<Rightarrow> str list \<Rightarrow> str list" where
  "format_loop recent_history i formatted =
     (if i < length recent_history then
        format_loop recent_history (i + 2)
          (if i + 1 < length recent_history then
             formatted @
               [lit ''Q: '' @ recent_history ! i @ lit ''\<newline>A: '' @
                take 200 (recent_history ! (i + 1)) @ lit ''...'']
           else formatted)
      else formatted)"
  by pat_completeness auto
termination
  by (relation "measure (\<lambda>(recent_history, i, formatted). length recent_history - i)") auto

declare format_loop.simps [simp del]

definition format_history :: "session \<Rightarrow> str" where
  "format_history s =
     (if conversation_history s = [] then lit ''No previous conversation.''
      else
        let recent_history = last_n 6 (conversation_history s)
        in join (lit ''\<newline>\<newline>'') (format_loop recent_history 0 []))"

definition adv_add_to_history :: "str \<Rightarrow> str \<Rightarrow> str \<Rightarrow> session \<Rightarrow> session" where
  "adv_add_to_history timestamp question answer s =
     (let s = s\<lparr>conversation_history := conversation_history s @
                 [lit ''['' @ timestamp @ lit ''] '' @ question,
                  lit ''['' @ timestamp @ lit ''] '' @ answer]\<rparr>
      in if length (conversation_history s) > 20
         then s\<lparr>conversation_history := last_n 20 (conversation_history s)\<rparr>
         else s)"

definition adv_save_conversation :: "world \<Rightarrow> str \<Rightarrow> str \<Rightarrow> session \<Rightarrow> unit io \<times> session" where
  "adv_save_conversation w now filename s =
     (let conversation_data =
            JObject
              [(lit ''timestamp'', JString now),
               (lit ''history'', JArray (map JString (conversation_history s)))]
      in (io_try
            (io_bind (dump_json w filename conversation_data) (\<lambda>_.
             print_line w ([0x1F4BE] @ lit '' Conversation saved to '' @ filename)))
            (\<lambda>e. print_line w ([0x274C] @ lit '' Could not save conversation: '' @ str_exn e)),
          s))"

text \<open>
  The sessions \<open>AdvancedRAGAssistant.run\<close> can be in: \<open>__init__\<close> creates the empty history,
  and the loop changes it in two places only, the \<open>clear\<close> command and the call
  \<open>add_to_history(user_question, response)\<close> after an answered question.
\<close>

inductive adv_reachable :: "session \<Rightarrow> bool" where
  adv_init: "adv_reachable init_session"
| adv_clear: "adv_reachable s \<Longrightarrow> adv_reachable (clear_history s)"
| adv_record: "adv_reachable s \<Longrightarrow> adv_reachable (adv_add_to_history timestamp question answer s)"

section \<open>Descriptions the history claims are compared with\<close>

text \<open>
  The two entries one \<open>add_to_history\<close> appends, for an operation given as (timestamp,
  question, answer), and a sequence of such operations applied in order.
\<close>

definition dual_entries :: "str \<times> str \<times> str \<Rightarrow> str list" where
  "dual_entries op =
     (case op of (timestamp, question, answer) \<Rightarrow>
        [lit ''['' @ timestamp @ lit ''] '' @ question,
         lit ''['' @ timestamp @ lit ''] '' @ take 300 answer @ lit ''...''])"

definition adv_entries :: "str \<times> str \<times> str \<Rightarrow> str list" where
  "adv_entries op =
     (case op of (timestamp, question, answer) \<Rightarrow>
        [lit ''['' @ timestamp @ lit ''] '' @ question,
         lit ''['' @ timestamp @ lit ''] '' @ answer])"

fun dual_record_all :: "(str \<times> str \<times> str) list \<Rightarrow> session \<Rightarrow> session" where
  "dual_record_all [] s = s"
| "dual_record_all ((timestamp, question, answer) # ops) s =
     dual_record_all ops (dual_add_to_history timestamp question answer s)"

fun adv_record_all :: "(str \<times> str \<times> str) list \<Rightarrow> session \<Rightarrow> session" where
  "adv_record_all [] s = s"
| "adv_record_all ((timestamp, question, answer) # ops) s =
     adv_record_all ops (adv_add_to_history timestamp question answer s)"

text \<open>
  The answer entry as the specification words it: the answer cut to the variant's
  character budget, the ellipsis marker added exactly when something was cut off, the
  answer unchanged when it fits.
\<close>

definition claimed_answer_entry :: "nat \<Rightarrow> str \<Rightarrow> str \<Rightarrow> str" where
  "claimed_answer_entry budget timestamp answer =
     lit ''['' @ timestamp @ lit ''] '' @
     (if budget < length answer then take budget answer @ lit ''...'' else answer)"

text \<open>
  The stored question/answer pairs of a history, and the block \<open>format_history\<close> renders
  for one pair.
\<close>

fun qa_pairs :: "str list \<Rightarrow> (str \<times> str) list" where
  "qa_pairs (q # a # rest) = (q, a) # qa_pairs rest"
| "qa_pairs rest = []"

definition history_block :: "str \<times> str \<Rightarrow> str" where
  "history_block p =
     (case p of (q, a) \<Rightarrow> lit ''Q: '' @ q @ lit ''\<newline>A: '' @ take 200 a @ lit ''...'')"

section \<open>Stub collaborators for concrete runs\<close>

text \<open>
  A world whose services answer without looking at their arguments, whose console takes
  every line, and whose upper-case table agrees with the interpreter's on ASCII; and the
  same world with a console that cannot encode what it is given. They give the concrete
  runs below fixed answers, as a test double would.
\<close>

definition ascii_upper :: "nat \<Rightarrow> nat list" where
  "ascii_upper c = (if 97 \<le> c \<and> c \<le> 122 then [c - 32] else [c])"

definition stub_world :: "(exn + str) \<Rightarrow> (chain \<Rightarrow> exn + str) \<Rightarrow> (exn + unit) \<Rightarrow> world" where
  "stub_world found answers written =
     \<lparr>search_run = (\<lambda>_. found), chain_invoke = (\<lambda>c _. answers c),
      write_json = (\<lambda>_ _. written), console_write = (\<lambda>_. Inr ()),
      upper_table = ascii_upper\<rparr>"

definition broken_console :: "world \<Rightarrow> world" where
  "broken_console w = w\<lparr>console_write := (\<lambda>_. Inl (Failure (lit ''cannot encode'')))\<rparr>"

text \<open>
  Two complete set-ups: one where the coordinator picks the sequential strategy, and the
  scenario where it picks both models and the combiner is down.
\<close>

definition seq_world :: world where
  "seq_world =
     stub_world (Inr (lit ''ctx''))
       (\<lambda>c. case c of
              Coordinator_chain \<Rightarrow> Inr (lit ''qwen_then_gpt'')
            | Qwen_chain \<Rightarrow> Inr (lit ''A'')
            | Gpt_chain \<Rightarrow> Inr (lit ''B'')
            | Combination_chain \<Rightarrow> Inl (Failure (lit ''combiner down'')))
       (Inr ())"


text \<open>A session of the advanced assistant after four exchanges, the last answer 201 long.\<close>

definition four_exchanges :: session where
  "four_exchanges =
     adv_add_to_history (lit ''09:04'') (lit ''d?'') (replicate 201 100)
       (adv_add_to_history (lit ''09:03'') (lit ''c?'') (lit ''C'')
         (adv_add_to_history (lit ''09:02'') (lit ''b?'') (lit ''B'')
           (adv_add_to_history (lit ''09:01'') (lit ''a?'') (lit ''A'') init_session)))"

section \<open>Auxiliary facts\<close>

lemmas io_defs = io_try_def io_bind_def io_return_def io_raise_def print_line_def search_def
  invoke_def dump_json_def

lemmas normalise_defs = upper_def strip_def is_space_def ascii_upper_def

lemma lit_Nil [simp]: "lit [] = []"
  by (simp add: lit_def)

lemma lit_Cons [simp]: "lit (c # cs) = of_char c # lit cs"
  by (simp add: lit_def)

lemma determine_model_strategy_fst:
  "fst (determine_model_strategy w q c) =
     (case chain_invoke w Coordinator_chain [(lit ''question'', q), (lit ''context'', c)] of
        Inl e \<Rightarrow>
          (case console_write w
                  ([0x26A0, 0xFE0F] @ lit '' Strategy determination failed: '' @ str_exn e) of
             Inl e' \<Rightarrow> Inl e'
           | Inr u \<Rightarrow> Inr (lit ''GPT''))
      | Inr raw \<Rightarrow>
          Inr (if upper (upper_table w) (strip raw) \<in>
                  {lit ''QWEN'', lit ''GPT'', lit ''BOTH'', lit ''QWEN_THEN_GPT''}
               then upper (upper_table w) (strip raw) else lit ''GPT''))"
  by (simp add: determine_model_strategy_def io_try_def io_bind_def invoke_def io_return_def
      print_line_def Let_def split: sum.splits)

lemma invocations_append: "invocations (xs @ ys) = invocations xs @ invocations ys"
  by (induction xs rule: invocations.induct) simp_all







lemma dual_search_snd: "snd (dual_search_with_error_handling w q) = [Searched q]"
  by (cases "search_run w q")
    (simp_all add: dual_search_with_error_handling_def io_try_def io_bind_def io_return_def search_def)

lemma determine_model_strategy_invocations:
  "invocations (snd (determine_model_strategy w q c)) =
     [(Coordinator_chain, [(lit ''question'', q), (lit ''context'', c)])]"
  by (cases "chain_invoke w Coordinator_chain [(lit ''question'', q), (lit ''context'', c)]")
   (simp_all add: determine_model_strategy_def io_try_def io_bind_def invoke_def io_return_def
      print_line_def Let_def split: sum.splits)



lemma get_qwen_response_snd:
  "snd (get_qwen_response w q c) = [Invoked Qwen_chain [(lit ''question'', q), (lit ''context'', c)]]"
  by (cases "chain_invoke w Qwen_chain [(lit ''question'', q), (lit ''context'', c)]")
    (simp_all add: get_qwen_response_def io_try_def invoke_def io_return_def)

lemma get_gpt_response_fst: "\<exists>r. fst (get_gpt_response w q c) = Inr r"
  by (cases "chain_invoke w Gpt_chain [(lit ''question'', q), (lit ''context'', c)]")
    (simp_all add: get_gpt_response_def io_try_def invoke_def io_return_def)

lemma get_gpt_response_snd:
  "snd (get_gpt_response w q c) = [Invoked Gpt_chain [(lit ''question'', q), (lit ''context'', c)]]"
  by (cases "chain_invoke w Gpt_chain [(lit ''question'', q), (lit ''context'', c)]")
    (simp_all add: get_gpt_response_def io_try_def invoke_def io_return_def)










lemma invocations_bind_subset:
  assumes "set (invocations (snd m)) \<subseteq> A"
    and "\<And>x. fst m = Inr x \<Longrightarrow> set (invocations (snd (f x))) \<subseteq> A"
  shows "set (invocations (snd (io_bind m f))) \<subseteq> A"
proof (cases "fst m")
  case (Inl e)
  with assms(1) show ?thesis by (simp add: io_bind_def)
next
  case (Inr x)
  with assms(1) assms(2) [OF Inr] show ?thesis
    by (simp add: io_bind_def invocations_append)
qed

lemma invocations_bind_subset_Inr:
  assumes "fst m = Inr x" and "set (invocations (snd m)) \<subseteq> A"
    and "set (invocations (snd (f x))) \<subseteq> A"
  shows "set (invocations (snd (io_bind m f))) \<subseteq> A"
  using assms by (simp add: io_bind_def invocations_append)

lemma invocations_print_subset: "set (invocations (snd (print_line w s))) \<subseteq> A"
  by (simp add: print_line_def)

lemma invocations_return_subset: "set (invocations (snd (io_return x))) \<subseteq> A"
  by (simp add: io_return_def)

lemma snd_return_answer: "snd (return_answer x) = []"
  by (cases x rule: return_answer.cases) (simp_all add: io_raise_def io_return_def)

lemma invocations_return_answer_subset: "set (invocations (snd (return_answer x))) \<subseteq> A"
  by (simp add: snd_return_answer)

lemma snd_io_bind_Inr: "fst m = Inr x \<Longrightarrow> snd (io_bind m f) = snd m @ snd (f x)"
  by (simp add: io_bind_def)

lemma snd_io_bind_print:
  "\<forall>line. console_write w line = Inr () \<Longrightarrow>
   snd (io_bind (print_line w s) f) = Printed s # snd (f ())"
  by (simp add: io_bind_def print_line_def)

lemma snd_io_bind_return_answer: "snd (io_bind m return_answer) = snd m"
  by (cases "fst m") (simp_all add: io_bind_def snd_return_answer)

lemma branches_sequential:
  "strategy_branches w q c (lit ''QWEN_THEN_GPT'') =
      io_bind (print_line w ([0x1F7E1] @ lit '' Getting Qwen3-VL response...'')) (\<lambda>_.
      io_bind (get_qwen_response w q c) (\<lambda>qwen_response.
      io_bind (print_line w ([0x1F535] @ lit '' Refining with GPT-OSS...'')) (\<lambda>_.
      io_bind (get_gpt_response w q
         (lit ''Previous analysis: '' @ qwen_response @
          lit ''\<newline>\<newline>Original context: '' @ c)) (\<lambda>response.
      io_return
        (Some response,
         Some (lit ''**Models Used:** Qwen3-VL '' @ [0x2192] @ lit '' GPT-OSS (Sequential)''))))))"
  by (simp add: strategy_branches_def Let_def)

lemma invocations_branches_sequential:
  assumes "fst (get_qwen_response w q c) = Inr ra"
  shows "set (invocations (snd (strategy_branches w q c (lit ''QWEN_THEN_GPT'')))) \<subseteq>
     {(Qwen_chain, [(lit ''question'', q), (lit ''context'', c)]),
      (Gpt_chain, [(lit ''question'', q),
         (lit ''context'',
          lit ''Previous analysis: '' @ ra @ lit ''\<newline>\<newline>Original context: '' @ c)])}"
  unfolding branches_sequential
  apply (rule invocations_bind_subset [OF invocations_print_subset])
  apply (rule invocations_bind_subset_Inr [OF assms])
   apply (simp only: get_qwen_response_snd invocations.simps list.set)
   apply blast
  apply (rule invocations_bind_subset [OF invocations_print_subset])
  apply (rule invocations_bind_subset)
   apply (simp only: get_gpt_response_snd invocations.simps list.set)
   apply blast
  apply (rule invocations_return_subset)
  done

lemma invocations_branches_sequential_ok:
  assumes "fst (get_qwen_response w q c) = Inr ra"
    and ok: "\<forall>line. console_write w line = Inr ()"
  shows "invocations (snd (strategy_branches w q c (lit ''QWEN_THEN_GPT''))) =
     [(Qwen_chain, [(lit ''question'', q), (lit ''context'', c)]),
      (Gpt_chain, [(lit ''question'', q),
         (lit ''context'',
          lit ''Previous analysis: '' @ ra @ lit ''\<newline>\<newline>Original context: '' @ c)])]"
proof -
  obtain rd where rd: "fst (get_gpt_response w q
     (lit ''Previous analysis: '' @ ra @ lit ''\<newline>\<newline>Original context: '' @ c)) = Inr rd"
    using get_gpt_response_fst by blast
  show ?thesis
    unfolding branches_sequential
    by (simp only: snd_io_bind_print [OF ok] snd_io_bind_Inr [OF assms(1)] snd_io_bind_Inr [OF rd]
        get_qwen_response_snd get_gpt_response_snd io_return_def snd_conv invocations.simps
        append_Cons append_Nil)
qed

lemma invocations_process_question:
  assumes "fst (dual_search_with_error_handling w q) = Inr ctx"
    and "fst (determine_model_strategy w q ctx) = Inr strategy"
    and "set (invocations (snd (strategy_branches w q ctx strategy))) \<subseteq> A"
    and "(Coordinator_chain, [(lit ''question'', q), (lit ''context'', ctx)]) \<in> A"
  shows "set (invocations (snd (process_question w q))) \<subseteq> A"
  unfolding process_question_def
  apply (rule invocations_bind_subset [OF invocations_print_subset])
  apply (rule invocations_bind_subset_Inr [OF assms(1)])
   apply (simp only: dual_search_snd invocations.simps list.set empty_subsetI)
  apply (rule invocations_bind_subset [OF invocations_print_subset])
  apply (rule invocations_bind_subset_Inr [OF assms(2)])
   apply (simp only: determine_model_strategy_invocations list.set)
   apply (use assms(4) in blast)
  apply (rule invocations_bind_subset [OF invocations_print_subset])
  apply (rule invocations_bind_subset [OF assms(3)])
  apply (rule invocations_return_answer_subset)
  done

lemma invocations_process_question_ok:
  assumes "fst (dual_search_with_error_handling w q) = Inr ctx"
    and "fst (determine_model_strategy w q ctx) = Inr strategy"
    and ok: "\<forall>line. console_write w line = Inr ()"
  shows "invocations (snd (process_question w q)) =
     (Coordinator_chain, [(lit ''question'', q), (lit ''context'', ctx)]) #
     invocations (snd (strategy_branches w q ctx strategy))"
  unfolding process_question_def
  by (simp only: snd_io_bind_print [OF ok] snd_io_bind_Inr [OF assms(1)]
      snd_io_bind_Inr [OF assms(2)] dual_search_snd invocations_append invocations.simps
      determine_model_strategy_invocations snd_io_bind_return_answer append_Cons append_Nil)


lemma length_last_n: "length (last_n n xs) = min n (length xs)"
  by (simp add: last_n_def)

lemma last_n_id: "length xs \<le> n \<Longrightarrow> last_n n xs = xs"
  by (simp add: last_n_def)

lemma last_n_last_n_append: "last_n n (last_n n xs @ ys) = last_n n (xs @ ys)"
proof (cases "length xs \<le> n")
  case True
  then show ?thesis by (simp add: last_n_def)
next
  case False
  then have "length ys + (length xs - n) = length xs + length ys - n" by arith
  with False show ?thesis by (simp add: last_n_def)
qed

lemma last_last_n: "xs \<noteq> [] \<Longrightarrow> 0 < n \<Longrightarrow> last (last_n n xs) = last xs"
  by (simp add: last_n_def)

lemma dual_add_to_history_history:
  "conversation_history (dual_add_to_history ts q a s) =
     last_n 20 (conversation_history s @ dual_entries (ts, q, a))"
  by (simp add: dual_add_to_history_def dual_entries_def Let_def last_n_def)

lemma adv_add_to_history_history:
  "conversation_history (adv_add_to_history ts q a s) =
     last_n 20 (conversation_history s @ adv_entries (ts, q, a))"
  by (simp add: adv_add_to_history_def adv_entries_def Let_def last_n_def)

lemma dual_record_all_last_n:
  "last_n 20 (conversation_history (dual_record_all ops s)) =
     last_n 20 (conversation_history s @ concat (map dual_entries ops))"
proof (induction ops arbitrary: s)
  case Nil
  then show ?case by simp
next
  case (Cons op ops)
  obtain ts q a where op: "op = (ts, q, a)" by (cases op)
  have "last_n 20 (conversation_history (dual_record_all (op # ops) s)) =
      last_n 20 (last_n 20 (conversation_history s @ dual_entries op) @ concat (map dual_entries ops))"
    by (simp add: op Cons.IH dual_add_to_history_history)
  also have "\<dots> = last_n 20 ((conversation_history s @ dual_entries op) @ concat (map dual_entries ops))"
    by (rule last_n_last_n_append)
  finally show ?case by simp
qed

lemma dual_record_all_length:
  "length (conversation_history s) \<le> 20 \<Longrightarrow>
   length (conversation_history (dual_record_all ops s)) \<le> 20"
proof (induction ops arbitrary: s)
  case Nil
  then show ?case by simp
next
  case (Cons op ops)
  obtain ts q a where op: "op = (ts, q, a)" by (cases op)
  show ?case
    unfolding op dual_record_all.simps
    by (rule Cons.IH) (simp add: dual_add_to_history_history length_last_n)
qed

lemma adv_record_all_last_n:
  "last_n 20 (conversation_history (adv_record_all ops s)) =
     last_n 20 (conversation_history s @ concat (map adv_entries ops))"
proof (induction ops arbitrary: s)
  case Nil
  then show ?case by simp
next
  case (Cons op ops)
  obtain ts q a where op: "op = (ts, q, a)" by (cases op)
  have "last_n 20 (conversation_history (adv_record_all (op # ops) s)) =
      last_n 20 (last_n 20 (conversation_history s @ adv_entries op) @ concat (map adv_entries ops))"
    by (simp add: op Cons.IH adv_add_to_history_history)
  also have "\<dots> = last_n 20 ((conversation_history s @ adv_entries op) @ concat (map adv_entries ops))"
    by (rule last_n_last_n_append)
  finally show ?case by simp
qed

lemma adv_record_all_length:
  "length (conversation_history s) \<le> 20 \<Longrightarrow>
   length (conversation_history (adv_record_all ops s)) \<le> 20"
proof (induction ops arbitrary: s)
  case Nil
  then show ?case by simp
next
  case (Cons op ops)
  obtain ts q a where op: "op = (ts, q, a)" by (cases op)
  show ?case
    unfolding op adv_record_all.simps
    by (rule Cons.IH) (simp add: adv_add_to_history_history length_last_n)
qed

lemma format_loop_step:
  "i < length recent \<Longrightarrow>
   format_loop recent i formatted =
     format_loop recent (i + 2)
       (if i + 1 < length recent then
          formatted @
            [lit ''Q: '' @ recent ! i @ lit ''\<newline>A: '' @
             take 200 (recent ! (i + 1)) @ lit ''...'']
        else formatted)"
  by (subst format_loop.simps) simp

lemma format_loop_stop: "\<not> i < length recent \<Longrightarrow> format_loop recent i formatted = formatted"
  by (subst format_loop.simps) simp

lemma format_loop_blocks:
  "\<forall>b \<in> set formatted. \<exists>rest. b = 81 # rest \<Longrightarrow>
   \<forall>b \<in> set (format_loop recent i formatted). \<exists>rest. b = 81 # rest"
proof (induction recent i formatted rule: format_loop.induct)
  case (1 recent i formatted)
  show ?case
  proof (cases "i < length recent")
    case True
    show ?thesis
      unfolding format_loop_step [OF True, of formatted]
      using "1.prems" by (intro "1.IH" [OF True]) auto
  next
    case False
    then show ?thesis
      using "1.prems" by (simp add: format_loop_stop)
  qed
qed

lemma join_blocks:
  "\<forall>b \<in> set bs. \<exists>rest. b = 81 # rest \<Longrightarrow> join sep bs = [] \<or> (\<exists>rest. join sep bs = 81 # rest)"
  by (cases "(sep, bs)" rule: join.cases) auto

lemma length_qa_pairs: "length (qa_pairs h) = length h div 2"
  by (induction h rule: qa_pairs.induct) simp_all

lemma qa_pairs_drop: "qa_pairs (drop (2 * k) h) = drop k (qa_pairs h)"
proof (induction k arbitrary: h)
  case 0
  then show ?case by simp
next
  case (Suc k)
  show ?case
  proof (cases h)
    case Nil
    then show ?thesis by simp
  next
    case outer: (Cons q t)
    show ?thesis
    proof (cases t)
      case Nil
      with outer show ?thesis by simp
    next
      case (Cons a rest)
      with outer show ?thesis using Suc.IH [of rest] by simp
    qed
  qed
qed

lemma format_loop_pairs:
  "even (length recent) \<Longrightarrow> even i \<Longrightarrow>
   format_loop recent i formatted = formatted @ map history_block (qa_pairs (drop i recent))"
proof (induction recent i formatted rule: format_loop.induct)
  case (1 recent i formatted)
  show ?case
  proof (cases "i < length recent")
    case True
    with "1.prems" have next_in: "i + 1 < length recent"
      by (metis Suc_eq_plus1 Suc_lessI even_Suc)
    have d: "drop i recent = recent ! i # recent ! (i + 1) # drop (i + 2) recent"
      using True next_in by (simp add: Cons_nth_drop_Suc)
    show ?thesis
      unfolding format_loop_step [OF True, of formatted]
      using "1.IH" [OF True] "1.prems" next_in
      by (simp add: d history_block_def)
  next
    case False
    then show ?thesis by (simp add: format_loop_stop)
  qed
qed

lemma adv_reachable_even: "adv_reachable s \<Longrightarrow> even (length (conversation_history s))"
proof (induction rule: adv_reachable.induct)
  case adv_init
  then show ?case by (simp add: init_session_def)
next
  case (adv_clear s)
  then show ?case by (simp add: clear_history_def)
next
  case (adv_record s timestamp question answer)
  then show ?case
    by (simp add: adv_add_to_history_history length_last_n adv_entries_def min_def)
qed

lemma format_history_pairs:
  assumes "even (length (conversation_history s))" and "conversation_history s \<noteq> []"
  shows "format_history s =
     join (lit ''\<newline>\<newline>'')
       (map history_block
          (last_n (min 3 (length (qa_pairs (conversation_history s))))
             (qa_pairs (conversation_history s))))"
proof -
  let ?h = "conversation_history s"
  have ev: "even (length (last_n 6 ?h))"
    using assms(1) by (simp add: length_last_n min_def)
  have k: "length ?h - 6 = 2 * (length ?h div 2 - 3)"
    using assms(1) by (elim evenE) simp
  have "qa_pairs (last_n 6 ?h) = drop (length ?h div 2 - 3) (qa_pairs ?h)"
    unfolding last_n_def k by (rule qa_pairs_drop)
  also have "\<dots> = last_n (min 3 (length (qa_pairs ?h))) (qa_pairs ?h)"
    by (simp add: last_n_def length_qa_pairs min_def)
  finally have "format_loop (last_n 6 ?h) 0 [] =
      map history_block (last_n (min 3 (length (qa_pairs ?h))) (qa_pairs ?h))"
    using format_loop_pairs [OF ev, of 0 "[]"] by simp
  with assms(2) show ?thesis
    by (simp add: format_history_def Let_def)
qed

lemma four_exchanges_history:
  "conversation_history four_exchanges =
     [lit ''[09:01] a?'', lit ''[09:01] A'', lit ''[09:02] b?'', lit ''[09:02] B'',
      lit ''[09:03] c?'', lit ''[09:03] C'', lit ''[09:04] d?'', lit ''[09:04] '' @ replicate 201 100]"
  by (simp add: four_exchanges_def adv_add_to_history_def init_session_def Let_def)

section \<open>The strategy coordinator\<close>

text \<open>
  C1 as the code has it. For every question and context: when the coordinator chain
  returns, \<open>determine_model_strategy\<close> returns its output, stripped and upper-cased, if
  that is one of the four labels QWEN, GPT, BOTH, QWEN\_THEN\_GPT, and the fallback GPT if
  it is not. When the invocation of the chain raises, the handler first writes a warning
  line to the console: if that write succeeds the result is the fallback GPT, and if the
  write raises, its exception leaves \<open>determine_model_strategy\<close>. Whenever
  \<open>determine_model_strategy\<close> returns, the result is one of the four labels.
\<close>

theorem determine_model_strategy_result:
  "(\<forall>s. fst (determine_model_strategy w q c) = Inr s \<longrightarrow>
      s \<in> {lit ''QWEN'', lit ''GPT'', lit ''BOTH'', lit ''QWEN_THEN_GPT''}) \<and>
   (\<forall>raw. chain_invoke w Coordinator_chain [(lit ''question'', q), (lit ''context'', c)] = Inr raw \<longrightarrow>
      upper (upper_table w) (strip raw) \<notin>
        {lit ''QWEN'', lit ''GPT'', lit ''BOTH'', lit ''QWEN_THEN_GPT''} \<longrightarrow>
      fst (determine_model_strategy w q c) = Inr (lit ''GPT'')) \<and>
   (\<forall>raw. chain_invoke w Coordinator_chain [(lit ''question'', q), (lit ''context'', c)] = Inr raw \<longrightarrow>
      upper (upper_table w) (strip raw) \<in>
        {lit ''QWEN'', lit ''GPT'', lit ''BOTH'', lit ''QWEN_THEN_GPT''} \<longrightarrow>
      fst (determine_model_strategy w q c) = Inr (upper (upper_table w) (strip raw))) \<and>
   (\<forall>e. chain_invoke w Coordinator_chain [(lit ''question'', q), (lit ''context'', c)] = Inl e \<longrightarrow>
      console_write w
        ([0x26A0, 0xFE0F] @ lit '' Strategy determination failed: '' @ str_exn e) = Inr () \<longrightarrow>
      fst (determine_model_strategy w q c) = Inr (lit ''GPT'')) \<and>
   (\<forall>e e'. chain_invoke w Coordinator_chain [(lit ''question'', q), (lit ''context'', c)] = Inl e \<longrightarrow>
      console_write w
        ([0x26A0, 0xFE0F] @ lit '' Strategy determination failed: '' @ str_exn e) = Inl e' \<longrightarrow>
      fst (determine_model_strategy w q c) = Inl e')"
  unfolding determine_model_strategy_fst
  by (auto split: sum.splits)

theorem determine_model_strategy_result_witness:
  "chain_invoke (stub_world (Inr []) (\<lambda>_. Inr (lit '' both\<newline>'')) (Inr ())) Coordinator_chain
       [(lit ''question'', lit ''hi''), (lit ''context'', [])] = Inr (lit '' both\<newline>'') \<and>
   upper ascii_upper (strip (lit '' both\<newline>'')) = lit ''BOTH'' \<and>
   fst (determine_model_strategy (stub_world (Inr []) (\<lambda>_. Inr (lit '' both\<newline>'')) (Inr ()))
       (lit ''hi'') []) = Inr (lit ''BOTH'') \<and>
   upper ascii_upper (strip (lit ''MAYBE'')) = lit ''MAYBE'' \<and>
   fst (determine_model_strategy (stub_world (Inr []) (\<lambda>_. Inr (lit ''MAYBE'')) (Inr ()))
       (lit ''hi'') []) = Inr (lit ''GPT'') \<and>
   console_write (stub_world (Inr []) (\<lambda>_. Inl (Failure (lit ''timeout''))) (Inr ()))
       ([0x26A0, 0xFE0F] @ lit '' Strategy determination failed: timeout'') = Inr () \<and>
   fst (determine_model_strategy
       (stub_world (Inr []) (\<lambda>_. Inl (Failure (lit ''timeout''))) (Inr ())) (lit ''hi'') []) =
     Inr (lit ''GPT'') \<and>
   fst (determine_model_strategy
       (broken_console (stub_world (Inr []) (\<lambda>_. Inl (Failure (lit ''timeout''))) (Inr ())))
       (lit ''hi'') []) = Inl (Failure (lit ''cannot encode''))"
proof -
  have both: "upper ascii_upper (strip (lit '' both\<newline>'')) = lit ''BOTH''"
    by (simp add: normalise_defs)
  have maybe: "upper ascii_upper (strip (lit ''MAYBE'')) = lit ''MAYBE''"
    by (simp add: normalise_defs)
  show ?thesis
    using both maybe
      determine_model_strategy_result
        [of "stub_world (Inr []) (\<lambda>_. Inr (lit '' both\<newline>'')) (Inr ())" "lit ''hi''" "[]"]
      determine_model_strategy_result
        [of "stub_world (Inr []) (\<lambda>_. Inr (lit ''MAYBE'')) (Inr ())" "lit ''hi''" "[]"]
      determine_model_strategy_result
        [of "stub_world (Inr []) (\<lambda>_. Inl (Failure (lit ''timeout''))) (Inr ())" "lit ''hi''" "[]"]
      determine_model_strategy_result
        [of "broken_console (stub_world (Inr []) (\<lambda>_. Inl (Failure (lit ''timeout''))) (Inr ()))"
            "lit ''hi''" "[]"]
    by (simp add: stub_world_def broken_console_def)
qed

text \<open>
  C1 as stated fails: it promises the fallback GPT whenever the invocation of the
  coordinator fails. With a coordinator that raises and a console that cannot take the
  warning line, the \<open>print\<close> inside the \<open>except\<close> handler raises and no strategy is returned.
\<close>

theorem determine_model_strategy_result_counterexample:
  "chain_invoke
       (broken_console (stub_world (Inr []) (\<lambda>_. Inl (Failure (lit ''timeout''))) (Inr ())))
       Coordinator_chain [(lit ''question'', lit ''hi''), (lit ''context'', [])] =
     Inl (Failure (lit ''timeout'')) \<and>
   fst (determine_model_strategy
       (broken_console (stub_world (Inr []) (\<lambda>_. Inl (Failure (lit ''timeout''))) (Inr ())))
       (lit ''hi'') []) = Inl (Failure (lit ''cannot encode'')) \<and>
   fst (determine_model_strategy
       (broken_console (stub_world (Inr []) (\<lambda>_. Inl (Failure (lit ''timeout''))) (Inr ())))
       (lit ''hi'') []) \<noteq> Inr (lit ''GPT'')"
  by (simp add: determine_model_strategy_fst stub_world_def broken_console_def)


section \<open>The context provider\<close>

text \<open>
  C8. For every question, \<open>search_with_error_handling\<close> returns and does not raise: when
  the search tool returns, the result is the tool's raw result; when the search tool
  raises, the result is \<open>"Search unavailable: " + str(e) + ". Using model knowledge only."\<close>
  in the dual-model class and the same with \<open>"general knowledge"\<close> in the advanced class.
\<close>

theorem search_with_error_handling_returns:
  "(\<exists>r. fst (dual_search_with_error_handling w q) = Inr r) \<and>
   (\<exists>r. fst (adv_search_with_error_handling w q) = Inr r) \<and>
   (\<forall>r. search_run w q = Inr r \<longrightarrow>
      fst (dual_search_with_error_handling w q) = Inr r \<and>
      fst (adv_search_with_error_handling w q) = Inr r) \<and>
   (\<forall>e. search_run w q = Inl e \<longrightarrow>
      fst (dual_search_with_error_handling w q) =
        Inr (lit ''Search unavailable: '' @ str_exn e @ lit ''. Using model knowledge only.'') \<and>
      fst (adv_search_with_error_handling w q) =
        Inr (lit ''Search unavailable: '' @ str_exn e @ lit ''. Using general knowledge only.''))"
  by (cases "search_run w q")
    (simp_all add: dual_search_with_error_handling_def adv_search_with_error_handling_def
      io_try_def io_bind_def io_return_def search_def)

theorem search_with_error_handling_returns_witness:
  "search_run (stub_world (Inr (lit ''Paris is the capital of France.'')) (\<lambda>_. Inr []) (Inr ()))
       (lit ''capital of France'') = Inr (lit ''Paris is the capital of France.'') \<and>
   fst (dual_search_with_error_handling
       (stub_world (Inr (lit ''Paris is the capital of France.'')) (\<lambda>_. Inr []) (Inr ()))
       (lit ''capital of France'')) = Inr (lit ''Paris is the capital of France.'') \<and>
   search_run (stub_world (Inl (Failure (lit ''timeout''))) (\<lambda>_. Inr []) (Inr ()))
       (lit ''capital of France'') = Inl (Failure (lit ''timeout'')) \<and>
   fst (dual_search_with_error_handling
       (stub_world (Inl (Failure (lit ''timeout''))) (\<lambda>_. Inr []) (Inr ()))
       (lit ''capital of France'')) =
     Inr (lit ''Search unavailable: timeout. Using model knowledge only.'') \<and>
   fst (adv_search_with_error_handling
       (stub_world (Inl (Failure (lit ''timeout''))) (\<lambda>_. Inr []) (Inr ()))
       (lit ''capital of France'')) =
     Inr (lit ''Search unavailable: timeout. Using general knowledge only.'')"
  using
    search_with_error_handling_returns
      [of "stub_world (Inr (lit ''Paris is the capital of France.'')) (\<lambda>_. Inr []) (Inr ())"
          "lit ''capital of France''"]
    search_with_error_handling_returns
      [of "stub_world (Inl (Failure (lit ''timeout''))) (\<lambda>_. Inr []) (Inr ())"
          "lit ''capital of France''"]
  by (simp add: stub_world_def)

section \<open>The response combiner\<close>

text \<open>
  C2. For every question, context and pair of model responses, when the invocation of the
  combination chain raises, \<open>combine_responses\<close> returns exactly
  \<open>"**Combined Response:**\n\n**Qwen3-VL:** " + qwen_response + "\n\n**GPT-OSS:** " +
  gpt_response\<close>, so the Qwen label and response come before the GPT label and response.
\<close>

theorem combine_responses_fallback:
  "chain_invoke w Combination_chain
     [(lit ''question'', q), (lit ''context'', c),
      (lit ''qwen_response'', ra), (lit ''gpt_response'', rb)] = Inl e \<Longrightarrow>
   fst (combine_responses w q c ra rb) =
     Inr (lit ''**Combined Response:**\<newline>\<newline>**Qwen3-VL:** '' @ ra @
          lit ''\<newline>\<newline>**GPT-OSS:** '' @ rb)"
  by (simp add: combine_responses_def io_try_def invoke_def io_return_def)

theorem combine_responses_fallback_witness:
  "fst (combine_responses
       (stub_world (Inr []) (\<lambda>_. Inl (Failure (lit ''combiner down''))) (Inr ()))
       (lit ''capital of France'') (lit ''Paris is the capital of France.'')
       (lit ''Paris'') (lit ''The capital is Paris.'')) =
     Inr (lit (''**Combined Response:**\<newline>\<newline>**Qwen3-VL:** Paris'' @
               ''\<newline>\<newline>**GPT-OSS:** The capital is Paris.''))"
proof -
  have fails:
    "chain_invoke (stub_world (Inr []) (\<lambda>_. Inl (Failure (lit ''combiner down''))) (Inr ()))
       Combination_chain
       [(lit ''question'', lit ''capital of France''),
        (lit ''context'', lit ''Paris is the capital of France.''),
        (lit ''qwen_response'', lit ''Paris''),
        (lit ''gpt_response'', lit ''The capital is Paris.'')] =
     Inl (Failure (lit ''combiner down''))"
    by (simp add: stub_world_def)
  show ?thesis
    using combine_responses_fallback [OF fails] by simp
qed

section \<open>Processing a question\<close>

text \<open>
  C3. When the chosen strategy is QWEN\_THEN\_GPT, the context passed to the second (GPT)
  model invocation is exactly \<open>"Previous analysis: " + qwen_response +
  "\n\nOriginal context: " + context\<close>, where \<open>qwen_response\<close> is the response obtained
  from the Qwen model and \<open>context\<close> is the original search context: every invocation of
  the GPT chain that \<open>process_question\<close> makes carries that context. When the console
  takes every line, the chains invoked are, in order, the coordinator and the Qwen chain
  on the original context, and the GPT chain on the refined one.
\<close>

theorem sequential_refined_context:
  assumes "fst (dual_search_with_error_handling w q) = Inr ctx"
    and "fst (determine_model_strategy w q ctx) = Inr (lit ''QWEN_THEN_GPT'')"
    and "fst (get_qwen_response w q ctx) = Inr ra"
  shows "(\<forall>vars. (Gpt_chain, vars) \<in> set (invocations (snd (process_question w q))) \<longrightarrow>
        vars =
          [(lit ''question'', q),
           (lit ''context'',
            lit ''Previous analysis: '' @ ra @ lit ''\<newline>\<newline>Original context: '' @ ctx)]) \<and>
     ((\<forall>line. console_write w line = Inr ()) \<longrightarrow>
      invocations (snd (process_question w q)) =
        [(Coordinator_chain, [(lit ''question'', q), (lit ''context'', ctx)]),
         (Qwen_chain, [(lit ''question'', q), (lit ''context'', ctx)]),
         (Gpt_chain, [(lit ''question'', q),
            (lit ''context'',
             lit ''Previous analysis: '' @ ra @ lit ''\<newline>\<newline>Original context: '' @ ctx)])])"
proof (intro conjI allI impI)
  fix vars
  assume "(Gpt_chain, vars) \<in> set (invocations (snd (process_question w q)))"
  moreover have "set (invocations (snd (process_question w q))) \<subseteq>
     {(Coordinator_chain, [(lit ''question'', q), (lit ''context'', ctx)]),
      (Qwen_chain, [(lit ''question'', q), (lit ''context'', ctx)]),
      (Gpt_chain, [(lit ''question'', q),
         (lit ''context'',
          lit ''Previous analysis: '' @ ra @ lit ''\<newline>\<newline>Original context: '' @ ctx)])}"
    using invocations_branches_sequential [OF assms(3)]
    by (intro invocations_process_question [OF assms(1,2)]) auto
  ultimately show "vars =
          [(lit ''question'', q),
           (lit ''context'',
            lit ''Previous analysis: '' @ ra @ lit ''\<newline>\<newline>Original context: '' @ ctx)]"
    by auto
next
  assume ok: "\<forall>line. console_write w line = Inr ()"
  show "invocations (snd (process_question w q)) =
        [(Coordinator_chain, [(lit ''question'', q), (lit ''context'', ctx)]),
         (Qwen_chain, [(lit ''question'', q), (lit ''context'', ctx)]),
         (Gpt_chain, [(lit ''question'', q),
            (lit ''context'',
             lit ''Previous analysis: '' @ ra @ lit ''\<newline>\<newline>Original context: '' @ ctx)])]"
    unfolding invocations_process_question_ok [OF assms(1,2) ok]
      invocations_branches_sequential_ok [OF assms(3) ok] ..
qed

theorem sequential_refined_context_witness:
  "invocations (snd (process_question seq_world (lit ''hi''))) =
     [(Coordinator_chain, [(lit ''question'', lit ''hi''), (lit ''context'', lit ''ctx'')]),
      (Qwen_chain, [(lit ''question'', lit ''hi''), (lit ''context'', lit ''ctx'')]),
      (Gpt_chain, [(lit ''question'', lit ''hi''),
         (lit ''context'', lit ''Previous analysis: A\<newline>\<newline>Original context: ctx'')])]"
proof -
  have found: "fst (dual_search_with_error_handling seq_world (lit ''hi'')) = Inr (lit ''ctx'')"
    by (simp add: seq_world_def stub_world_def dual_search_with_error_handling_def io_defs)
  have chosen:
    "fst (determine_model_strategy seq_world (lit ''hi'') (lit ''ctx'')) =
       Inr (lit ''QWEN_THEN_GPT'')"
    by (simp add: determine_model_strategy_fst seq_world_def stub_world_def normalise_defs)
  have first: "fst (get_qwen_response seq_world (lit ''hi'') (lit ''ctx'')) = Inr (lit ''A'')"
    by (simp add: seq_world_def stub_world_def get_qwen_response_def io_defs)
  have console: "\<forall>line. console_write seq_world line = Inr ()"
    by (simp add: seq_world_def stub_world_def)
  show ?thesis
    using sequential_refined_context [OF found chosen first, THEN conjunct2, THEN mp, OF console]
    by simp
qed






section \<open>The conversation session\<close>

text \<open>
  C4. For every sequence of \<open>add_to_history\<close> operations, after each operation the
  conversation history holds at most 20 entries, and it is the last 20 entries of the
  previous history followed by the two new entries: when appending exceeds the cap the
  oldest entries go first. Starting from the empty history, the history after any
  sequence of operations is the last 20 of all entries appended so far. Both classes.
\<close>

theorem history_keeps_last_20:
  "length (conversation_history (dual_add_to_history ts q a s)) \<le> 20 \<and>
   conversation_history (dual_add_to_history ts q a s) =
     last_n 20 (conversation_history s @ dual_entries (ts, q, a)) \<and>
   length (conversation_history (adv_add_to_history ts q a s)) \<le> 20 \<and>
   conversation_history (adv_add_to_history ts q a s) =
     last_n 20 (conversation_history s @ adv_entries (ts, q, a)) \<and>
   length (conversation_history (dual_record_all ops init_session)) \<le> 20 \<and>
   conversation_history (dual_record_all ops init_session) =
     last_n 20 (concat (map dual_entries ops)) \<and>
   length (conversation_history (adv_record_all ops init_session)) \<le> 20 \<and>
   conversation_history (adv_record_all ops init_session) =
     last_n 20 (concat (map adv_entries ops))"
proof -
  have d: "length (conversation_history (dual_record_all ops init_session)) \<le> 20"
    by (rule dual_record_all_length) (simp add: init_session_def)
  have a: "length (conversation_history (adv_record_all ops init_session)) \<le> 20"
    by (rule adv_record_all_length) (simp add: init_session_def)
  have "conversation_history (dual_record_all ops init_session) =
      last_n 20 (concat (map dual_entries ops))"
    using dual_record_all_last_n [of ops init_session] last_n_id [OF d]
    by (simp add: init_session_def)
  moreover have "conversation_history (adv_record_all ops init_session) =
      last_n 20 (concat (map adv_entries ops))"
    using adv_record_all_last_n [of ops init_session] last_n_id [OF a]
    by (simp add: init_session_def)
  ultimately show ?thesis
    using d a by (simp add: dual_add_to_history_history adv_add_to_history_history length_last_n)
qed


text \<open>
  C5 as the code has it. In the dual-model class \<open>add_to_history\<close> stores
  \<open>"[" + timestamp + "] "\<close> followed by the first 300 characters of the answer (the whole
  answer when it has at most 300) and then \<open>"..."\<close>, whether or not anything was cut off.
  In the advanced class it stores \<open>"[" + timestamp + "] "\<close> followed by the whole answer:
  nothing is cut and no marker is added at record time.
\<close>

theorem stored_answer_entry:
  "last (conversation_history (dual_add_to_history ts q a s)) =
     lit ''['' @ ts @ lit ''] '' @ take 300 a @ lit ''...'' \<and>
   last (conversation_history (adv_add_to_history ts q a s)) = lit ''['' @ ts @ lit ''] '' @ a"
  by (simp add: dual_add_to_history_history adv_add_to_history_history dual_entries_def
      adv_entries_def last_last_n)

text \<open>
  C5 as stated fails. In the dual-model class the two-character answer \<open>"ok"\<close> is stored
  as \<open>"[12:00] ok..."\<close>: the marker is there although nothing was cut off. In the
  advanced class an answer of 201 characters is stored whole, not cut to 200.
\<close>

theorem stored_answer_entry_counterexample:
  "last (conversation_history
       (dual_add_to_history (lit ''12:00'') (lit ''hi'') (lit ''ok'') init_session)) =
     lit ''[12:00] ok...'' \<and>
   claimed_answer_entry 300 (lit ''12:00'') (lit ''ok'') = lit ''[12:00] ok'' \<and>
   last (conversation_history
       (dual_add_to_history (lit ''12:00'') (lit ''hi'') (lit ''ok'') init_session)) \<noteq>
     claimed_answer_entry 300 (lit ''12:00'') (lit ''ok'') \<and>
   last (conversation_history
       (adv_add_to_history (lit ''12:00'') (lit ''hi'') (replicate 201 120) init_session)) =
     lit ''[12:00] '' @ replicate 201 120 \<and>
   claimed_answer_entry 200 (lit ''12:00'') (replicate 201 120) =
     lit ''[12:00] '' @ replicate 200 120 @ lit ''...'' \<and>
   last (conversation_history
       (adv_add_to_history (lit ''12:00'') (lit ''hi'') (replicate 201 120) init_session)) \<noteq>
     claimed_answer_entry 200 (lit ''12:00'') (replicate 201 120)"
proof -
  have r: "replicate 201 (120::nat) = replicate 200 120 @ [120]"
    using replicate_add [of 200 1 "120::nat"] by simp
  show ?thesis
    by (simp add: dual_add_to_history_def adv_add_to_history_def init_session_def Let_def
        claimed_answer_entry_def r)
qed

text \<open>
  C6. For every session (reachable or not), \<open>format_history\<close> returns exactly
  \<open>"No previous conversation."\<close> if and only if the conversation history is empty.
\<close>

theorem format_history_empty_iff:
  "format_history s = lit ''No previous conversation.'' \<longleftrightarrow> conversation_history s = []"
proof
  assume eq: "format_history s = lit ''No previous conversation.''"
  show "conversation_history s = []"
  proof (rule ccontr)
    assume ne: "conversation_history s \<noteq> []"
    have "\<forall>b \<in> set (format_loop (last_n 6 (conversation_history s)) 0 []). \<exists>rest. b = 81 # rest"
      by (rule format_loop_blocks) simp
    from join_blocks [OF this, of "lit ''\<newline>\<newline>''"] ne eq
    show False
      by (auto simp add: format_history_def Let_def)
  qed
next
  assume "conversation_history s = []"
  then show "format_history s = lit ''No previous conversation.''"
    by (simp add: format_history_def)
qed


text \<open>
  C7. For every reachable session with a non-empty history, \<open>format_history\<close> renders the
  last \<open>min(3, number of stored pairs)\<close> question/answer pairs, each as
  \<open>"Q: " + question entry + "\nA: " + first 200 characters of the answer entry + "..."\<close>,
  joined by a blank line. The cut to 200 is applied to the stored entry whatever its
  length.
\<close>

theorem format_history_last_three:
  assumes "adv_reachable s" and "conversation_history s \<noteq> []"
  shows "format_history s =
     join (lit ''\<newline>\<newline>'')
       (map history_block
          (last_n (min 3 (length (qa_pairs (conversation_history s))))
             (qa_pairs (conversation_history s))))"
  using format_history_pairs [OF adv_reachable_even [OF assms(1)] assms(2)] .

theorem format_history_last_three_witness:
  "adv_reachable four_exchanges \<and> conversation_history four_exchanges \<noteq> [] \<and>
   format_history four_exchanges =
     lit ''Q: [09:02] b?\<newline>A: [09:02] B...\<newline>\<newline>'' @
     lit ''Q: [09:03] c?\<newline>A: [09:03] C...\<newline>\<newline>'' @
     lit ''Q: [09:04] d?\<newline>A: [09:04] '' @ replicate 192 100 @ lit ''...''"
proof -
  have reach: "adv_reachable four_exchanges"
    unfolding four_exchanges_def by (intro adv_reachable.intros)
  have ne: "conversation_history four_exchanges \<noteq> []"
    by (simp add: four_exchanges_history)
  have r: "replicate 201 (100::nat) = replicate 192 100 @ replicate 9 100"
    using replicate_add [of 192 9 "100::nat"] by simp
  show ?thesis
    using reach ne format_history_last_three [OF reach ne]
    by (simp add: four_exchanges_history last_n_def history_block_def r)
qed

text \<open>
  C9 as the code has it. \<open>save_conversation\<close> leaves the session exactly as it was, in
  every case. It returns without raising whenever the line that reports a failure can be
  written to the console. When writing the file fails, all that happens besides the
  attempted write is the \<open>print\<close> of the line that reports the failure, and the call
  returns or raises as that \<open>print\<close> does. Both classes.
\<close>

theorem save_conversation_keeps_session:
  "snd (dual_save_conversation w now filename s) = s \<and>
   snd (adv_save_conversation w now filename s) = s \<and>
   ((\<forall>x. console_write w ([0x274C] @ lit '' Could not save conversation: '' @ x) = Inr ()) \<longrightarrow>
      fst (fst (dual_save_conversation w now filename s)) = Inr () \<and>
      fst (fst (adv_save_conversation w now filename s)) = Inr ()) \<and>
   (\<forall>e data.
      data =
        JObject
          [(lit ''timestamp'', JString now),
           (lit ''models_used'',
            JArray [JString (lit ''qwen3-vl:235b-cloud''), JString (lit ''gpt-oss:120b-cloud'')]),
           (lit ''history'', JArray (map JString (conversation_history s)))] \<longrightarrow>
      write_json w filename data = Inl e \<longrightarrow>
      snd (fst (dual_save_conversation w now filename s)) =
        [Wrote filename data,
         Printed ([0x274C] @ lit '' Could not save conversation: '' @ str_exn e)] \<and>
      fst (fst (dual_save_conversation w now filename s)) =
        console_write w ([0x274C] @ lit '' Could not save conversation: '' @ str_exn e)) \<and>
   (\<forall>e data.
      data =
        JObject
          [(lit ''timestamp'', JString now),
           (lit ''history'', JArray (map JString (conversation_history s)))] \<longrightarrow>
      write_json w filename data = Inl e \<longrightarrow>
      snd (fst (adv_save_conversation w now filename s)) =
        [Wrote filename data,
         Printed ([0x274C] @ lit '' Could not save conversation: '' @ str_exn e)] \<and>
      fst (fst (adv_save_conversation w now filename s)) =
        console_write w ([0x274C] @ lit '' Could not save conversation: '' @ str_exn e))"
proof (intro conjI allI impI)
  show "snd (dual_save_conversation w now filename s) = s"
    by (simp add: dual_save_conversation_def Let_def)
  show "snd (adv_save_conversation w now filename s) = s"
    by (simp add: adv_save_conversation_def Let_def)
next
  assume ok: "\<forall>x. console_write w ([0x274C] @ lit '' Could not save conversation: '' @ x) = Inr ()"
  show "fst (fst (dual_save_conversation w now filename s)) = Inr ()"
    using ok by (simp add: dual_save_conversation_def Let_def io_defs split: sum.splits)
  show "fst (fst (adv_save_conversation w now filename s)) = Inr ()"
    using ok by (simp add: adv_save_conversation_def Let_def io_defs split: sum.splits)
next
  fix e data
  assume "data =
        JObject
          [(lit ''timestamp'', JString now),
           (lit ''models_used'',
            JArray [JString (lit ''qwen3-vl:235b-cloud''), JString (lit ''gpt-oss:120b-cloud'')]),
           (lit ''history'', JArray (map JString (conversation_history s)))]"
    and "write_json w filename data = Inl e"
  then show "snd (fst (dual_save_conversation w now filename s)) =
        [Wrote filename data,
         Printed ([0x274C] @ lit '' Could not save conversation: '' @ str_exn e)]"
    and "fst (fst (dual_save_conversation w now filename s)) =
        console_write w ([0x274C] @ lit '' Could not save conversation: '' @ str_exn e)"
    by (simp_all add: dual_save_conversation_def Let_def io_defs)
next
  fix e data
  assume "data =
        JObject
          [(lit ''timestamp'', JString now),
           (lit ''history'', JArray (map JString (conversation_history s)))]"
    and "write_json w filename data = Inl e"
  then show "snd (fst (adv_save_conversation w now filename s)) =
        [Wrote filename data,
         Printed ([0x274C] @ lit '' Could not save conversation: '' @ str_exn e)]"
    and "fst (fst (adv_save_conversation w now filename s)) =
        console_write w ([0x274C] @ lit '' Could not save conversation: '' @ str_exn e)"
    by (simp_all add: adv_save_conversation_def Let_def io_defs)
qed

theorem save_conversation_keeps_session_witness:
  "(\<forall>x. console_write (stub_world (Inr []) (\<lambda>_. Inr []) (Inl (Failure (lit ''disk full''))))
          ([0x274C] @ lit '' Could not save conversation: '' @ x) = Inr ()) \<and>
   write_json (stub_world (Inr []) (\<lambda>_. Inr []) (Inl (Failure (lit ''disk full''))))
       (lit ''conversation_log.json'')
       (JObject
          [(lit ''timestamp'', JString (lit ''2025-01-01T09:05:00'')),
           (lit ''history'', JArray (map JString (conversation_history four_exchanges)))]) =
     Inl (Failure (lit ''disk full'')) \<and>
   adv_save_conversation (stub_world (Inr []) (\<lambda>_. Inr []) (Inl (Failure (lit ''disk full''))))
       (lit ''2025-01-01T09:05:00'') (lit ''conversation_log.json'') four_exchanges =
     ((Inr (),
       [Wrote (lit ''conversation_log.json'')
          (JObject
             [(lit ''timestamp'', JString (lit ''2025-01-01T09:05:00'')),
              (lit ''history'', JArray (map JString (conversation_history four_exchanges)))]),
        Printed ([0x274C] @ lit '' Could not save conversation: disk full'')]),
      four_exchanges)"
  using save_conversation_keeps_session
    [of "stub_world (Inr []) (\<lambda>_. Inr []) (Inl (Failure (lit ''disk full'')))"
        "lit ''2025-01-01T09:05:00''" "lit ''conversation_log.json''" four_exchanges]
  by (simp add: stub_world_def prod_eq_iff)

text \<open>
  C9 as stated fails: an exception can leave \<open>save_conversation\<close>. When the file cannot be
  written and the console cannot take the report line, the \<open>print\<close> inside the \<open>except\<close>
  handler raises, in both classes.
\<close>

theorem save_conversation_keeps_session_counterexample:
  "write_json
       (broken_console (stub_world (Inr []) (\<lambda>_. Inr []) (Inl (Failure (lit ''disk full'')))))
       (lit ''conversation_log.json'')
       (JObject
          [(lit ''timestamp'', JString (lit ''2025-01-01T09:05:00'')),
           (lit ''history'', JArray (map JString (conversation_history four_exchanges)))]) =
     Inl (Failure (lit ''disk full'')) \<and>
   fst (fst (adv_save_conversation
       (broken_console (stub_world (Inr []) (\<lambda>_. Inr []) (Inl (Failure (lit ''disk full'')))))
       (lit ''2025-01-01T09:05:00'') (lit ''conversation_log.json'') four_exchanges)) =
     Inl (Failure (lit ''cannot encode'')) \<and>
   fst (fst (dual_save_conversation
       (broken_console (stub_world (Inr []) (\<lambda>_. Inr []) (Inl (Failure (lit ''disk full'')))))
       (lit ''2025-01-01T09:05:00'') (lit ''dual_model_conversation.json'') init_session)) =
     Inl (Failure (lit ''cannot encode''))"
  by (simp add: adv_save_conversation_def dual_save_conversation_def Let_def io_defs
      stub_world_def broken_console_def)

end
